theory Spec2Isabelle
  imports Main "HOL-Library.Word" "HOL-Library.AList"
begin

section \<open>Data model of the websocket registry\<close>

text \<open>
  The Go package \<open>websocket\<close> keeps a \<open>Manager\<close> that maps endpoint paths to endpoints,
  each endpoint holding a table of live connections keyed by connection id. Four message
  variants are delivered through it.

  Modelling decisions, all read off the source:
  \<^item> \<open>ConnId\<close> and \<open>EndpointPath\<close> are Go strings; \<open>MessageType\<close> is a Go \<open>int\<close> on which
    the code only tests \<open>== 0\<close> and assigns, so it is an \<open>int\<close> here; a payload
    \<open>[]byte\<close> is a list of 8-bit words.
  \<^item> A \<open>*WebSocketConn\<close> is the address of a transport connection. The tables of the
    model hold allocated (non-nil) endpoints and connections, as \<open>AddEndpoint\<close> and
    \<open>ServeHTTP\<close> insert them, and a Manager's map is an allocated one, as \<open>NewManager\<close>
    makes it.
  \<^item> A Go map is an association list: the list order is the order in which one \<open>range\<close>
    over the map visits the entries (Go leaves that order open, and the theorems below hold
    for every list, hence for every order). Lookup is \<open>map_of\<close>, assignment
    \<open>m[k] = v\<close> is \<open>AList.update\<close>.
  \<^item> The hooks of an endpoint (authentication, upgrade) play no part in message dispatch
    and are left out of the record.
  \<^item> \<open>DefaultMessageType\<close> is a package variable; every function that reads it takes
    its current value as the parameter \<open>dflt\<close>.
  \<^item> Messages are passed by pointer and normalised in place, so every send returns the
    message as it stands after the call.
\<close>

type_synonym ConnId = string
type_synonym EndpointPath = string
type_synonym MessageType = int
type_synonym bytes = "8 word list"
type_synonym WebSocketConn = nat
type_synonym MsgChan = "nat option"

definition TextMessage :: MessageType where
  "TextMessage = 1"

definition BinaryMessage :: MessageType where
  "BinaryMessage = 2"

record Endpoint =
  EndpointPath :: EndpointPath
  MsgChan :: MsgChan
  ConnMap :: "(ConnId \<times> WebSocketConn) list"

record Manager =
  EndpointMap :: "(EndpointPath \<times> Endpoint) list"

record EndpointMessage =
  MessageType :: MessageType
  Message :: bytes
  ConnIds :: "ConnId list"

record Message =
  MessageType :: MessageType
  Message :: bytes
  EndpointPath :: EndpointPath
  ConnId :: ConnId

record MultiMessage =
  Messages :: "Message option list"

record BroadcastMessage =
  MessageType :: MessageType
  EndpointPath :: EndpointPath
  Message :: bytes

text \<open>
  The error types of the package. A failure of the transport's own \<open>WriteMessage\<close> is an
  error value of the transport library, carried as it is; the model keeps its text.
\<close>

datatype error =
    ConnNotFoundError EndpointPath ConnId
  | MultiMessageError "error list"
  | EndpointNotFoundError EndpointPath
  | EndpointMessageError EndpointPath "error list"
  | BroadcastMessageError EndpointPath "error list"
  | TransportError string

text \<open>
  The \<open>Error()\<close> method of each error type; \<open>%s\<close> prints a string as it is, and the
  aggregates append one line per contained error.
\<close>

fun Error :: "error \<Rightarrow> string" where
  "Error (ConnNotFoundError endpointPath connId) =
     ''connection not found: endpointPath='' @ endpointPath @ '' connId='' @ connId"
| "Error (MultiMessageError errs) =
     foldl (\<lambda>s err. s @ CHR 0x0A # '' - '' @ Error err) ''multi message send error:'' errs"
| "Error (EndpointNotFoundError endpointPath) = ''endpoint not found: '' @ endpointPath"
| "Error (EndpointMessageError endpointPath errs) =
     foldl (\<lambda>s err. s @ CHR 0x0A # '' - '' @ Error err)
       (''endpoint message send error: endpointPath='' @ endpointPath) errs"
| "Error (BroadcastMessageError endpointPath errs) =
     foldl (\<lambda>s err. s @ CHR 0x0A # '' - '' @ Error err)
       (''endpoint message send error: endpointPath='' @ endpointPath) errs"
| "Error (TransportError text) = text"

datatype panic = NilPointerDereference

section \<open>The transport\<close>

text \<open>
  \<open>conn.WriteMessage(kind, data)\<close> is the one effect of dispatch. The state threaded
  through the model is the log of the writes attempted so far, each with its outcome;
  whether a write fails is decided by the transport, a function of the history of writes
  and of the write asked for.
\<close>

record WriteAttempt =
  w_conn :: WebSocketConn
  w_messageType :: int
  w_data :: bytes
  w_err :: "string option"

type_synonym transport = "WriteAttempt list \<Rightarrow> WebSocketConn \<Rightarrow> int \<Rightarrow> bytes \<Rightarrow> string option"

definition WriteMessage ::
  "transport \<Rightarrow> WebSocketConn \<Rightarrow> int \<Rightarrow> bytes \<Rightarrow> WriteAttempt list
    \<Rightarrow> error option \<times> WriteAttempt list" where
  "WriteMessage tr conn messageType data log =
     (map_option TransportError (tr log conn messageType data),
      log @ [\<lparr>w_conn = conn, w_messageType = messageType, w_data = data,
              w_err = tr log conn messageType data\<rparr>])"

section \<open>Kind normalisation\<close>

definition ensureValidMessageType :: "MessageType \<Rightarrow> Message \<Rightarrow> Message" where
  "ensureValidMessageType dflt msg =
     (if Message.MessageType msg = 0 then msg\<lparr>Message.MessageType := dflt\<rparr> else msg)"

definition ensureValidBroadcastMessage :: "MessageType \<Rightarrow> BroadcastMessage \<Rightarrow> BroadcastMessage" where
  "ensureValidBroadcastMessage dflt msg =
     (if BroadcastMessage.MessageType msg = 0
      then msg\<lparr>BroadcastMessage.MessageType := dflt\<rparr> else msg)"

definition ensureValidEndpointMessage :: "MessageType \<Rightarrow> EndpointMessage \<Rightarrow> EndpointMessage" where
  "ensureValidEndpointMessage dflt msg =
     (if EndpointMessage.MessageType msg = 0
      then msg\<lparr>EndpointMessage.MessageType := dflt\<rparr> else msg)"

section \<open>Manager and endpoint accessors\<close>

definition NewManager :: Manager where
  "NewManager = \<lparr>EndpointMap = []\<rparr>"

definition Add ::
  "(EndpointPath \<times> Endpoint) list \<Rightarrow> EndpointPath \<Rightarrow> Endpoint \<Rightarrow> (EndpointPath \<times> Endpoint) list" where
  "Add m endpointPath endpoint = AList.update endpointPath endpoint m"

definition AddEndpoint :: "Manager \<Rightarrow> Endpoint \<Rightarrow> Manager" where
  "AddEndpoint s endpoint =
     s\<lparr>EndpointMap := Add (EndpointMap s) (Endpoint.EndpointPath endpoint) endpoint\<rparr>"

definition GetEndpoint :: "Manager \<Rightarrow> EndpointPath \<Rightarrow> Endpoint option" where
  "GetEndpoint s endpointPath = map_of (EndpointMap s) endpointPath"

definition Endpoint_GetConn :: "Endpoint \<Rightarrow> ConnId \<Rightarrow> WebSocketConn option" where
  "Endpoint_GetConn e connId = map_of (ConnMap e) connId"

definition Endpoint_GetConnCount :: "Endpoint \<Rightarrow> int" where
  "Endpoint_GetConnCount e = int (length (ConnMap e))"

definition Endpoint_GetMsgChan :: "Endpoint \<Rightarrow> MsgChan" where
  "Endpoint_GetMsgChan e = Endpoint.MsgChan e"

definition GetConn :: "Manager \<Rightarrow> EndpointPath \<Rightarrow> ConnId \<Rightarrow> WebSocketConn option" where
  "GetConn s endpointPath connId =
     (case GetEndpoint s endpointPath of
        Some endpoint \<Rightarrow> Endpoint_GetConn endpoint connId
      | None \<Rightarrow> None)"

text \<open>
  \<open>GetConnCount\<close> calls \<open>endpoint.GetConnCount()\<close> on whatever \<open>GetEndpoint\<close> returned.
  On a nil \<open>*Endpoint\<close> the method body reads \<open>e.ConnMap\<close>, which panics; the panic is a
  value of the result. \<open>GetMsgChan\<close> tests for nil first and returns the nil channel.
\<close>

definition GetConnCount :: "Manager \<Rightarrow> EndpointPath \<Rightarrow> panic + int" where
  "GetConnCount s endpointPath =
     (case GetEndpoint s endpointPath of
        None \<Rightarrow> Inl NilPointerDereference
      | Some endpoint \<Rightarrow> Inr (Endpoint_GetConnCount endpoint))"

definition GetMsgChan :: "Manager \<Rightarrow> EndpointPath \<Rightarrow> panic + MsgChan" where
  "GetMsgChan s endpointPath =
     (case GetEndpoint s endpointPath of
        None \<Rightarrow> Inr None
      | Some endpoint \<Rightarrow> Inr (Endpoint_GetMsgChan endpoint))"

section \<open>Dispatch\<close>

text \<open>
  Every send returns the error (\<open>None\<close> for Go's nil), the message after the call and the
  log of writes after the call.
\<close>

definition Message_Send ::
  "MessageType \<Rightarrow> transport \<Rightarrow> Manager \<Rightarrow> Message \<Rightarrow> WriteAttempt list
    \<Rightarrow> error option \<times> Message \<times> WriteAttempt list" where
  "Message_Send dflt tr server m0 log =
     (let m = ensureValidMessageType dflt m0 in
      case GetConn server (Message.EndpointPath m) (Message.ConnId m) of
        None \<Rightarrow>
          (Some (ConnNotFoundError (Message.EndpointPath m) (Message.ConnId m)), m, log)
      | Some conn \<Rightarrow>
          (case WriteMessage tr conn (Message.MessageType m) (Message.Message m) log of
             (err, log') \<Rightarrow> (err, m, log')))"

fun MultiMessage_loop ::
  "MessageType \<Rightarrow> transport \<Rightarrow> Manager \<Rightarrow> Message option list \<Rightarrow> error list
    \<Rightarrow> WriteAttempt list \<Rightarrow> error list \<times> Message option list \<times> WriteAttempt list" where
  "MultiMessage_loop dflt tr server [] errs log = (errs, [], log)"
| "MultiMessage_loop dflt tr server (None # rest) errs log =
     (case MultiMessage_loop dflt tr server rest errs log of
        (errs', rest', log') \<Rightarrow> (errs', None # rest', log'))"
| "MultiMessage_loop dflt tr server (Some singleMsg # rest) errs log =
     (case Message_Send dflt tr server singleMsg log of
        (err, singleMsg', log1) \<Rightarrow>
          (case MultiMessage_loop dflt tr server rest
                  (case err of None \<Rightarrow> errs | Some e \<Rightarrow> errs @ [e]) log1 of
             (errs', rest', log') \<Rightarrow> (errs', Some singleMsg' # rest', log')))"

definition MultiMessage_Send ::
  "MessageType \<Rightarrow> transport \<Rightarrow> Manager \<Rightarrow> MultiMessage \<Rightarrow> WriteAttempt list
    \<Rightarrow> error option \<times> MultiMessage \<times> WriteAttempt list" where
  "MultiMessage_Send dflt tr server mm log =
     (if length (Messages mm) = 0 then (None, mm, log)
      else
        case MultiMessage_loop dflt tr server (Messages mm) [] log of
          (errs, msgs', log') \<Rightarrow>
            (if length errs > 0 then Some (MultiMessageError errs) else None,
             mm\<lparr>Messages := msgs'\<rparr>, log'))"

fun writeMessageForConns_loop ::
  "transport \<Rightarrow> (ConnId \<times> WebSocketConn) list \<Rightarrow> MessageType \<Rightarrow> bytes \<Rightarrow> error list
    \<Rightarrow> WriteAttempt list \<Rightarrow> error list \<times> WriteAttempt list" where
  "writeMessageForConns_loop tr [] messageType msg errs log = (errs, log)"
| "writeMessageForConns_loop tr ((connId, conn) # rest) messageType msg errs log =
     (case WriteMessage tr conn messageType msg log of
        (None, log') \<Rightarrow> writeMessageForConns_loop tr rest messageType msg errs log'
      | (Some err, log') \<Rightarrow>
          writeMessageForConns_loop tr rest messageType msg (errs @ [err]) log')"

definition writeMessageForConns ::
  "transport \<Rightarrow> (ConnId \<times> WebSocketConn) list \<Rightarrow> MessageType \<Rightarrow> bytes
    \<Rightarrow> WriteAttempt list \<Rightarrow> error list \<times> WriteAttempt list" where
  "writeMessageForConns tr conns messageType msg log =
     writeMessageForConns_loop tr conns messageType msg [] log"

fun BroadcastMessage_loop ::
  "transport \<Rightarrow> (EndpointPath \<times> Endpoint) list \<Rightarrow> MessageType \<Rightarrow> bytes \<Rightarrow> error list
    \<Rightarrow> WriteAttempt list \<Rightarrow> error list \<times> WriteAttempt list" where
  "BroadcastMessage_loop tr [] messageType msg errs log = (errs, log)"
| "BroadcastMessage_loop tr ((path, endpoint) # rest) messageType msg errs log =
     (case writeMessageForConns tr (ConnMap endpoint) messageType msg log of
        (errs', log') \<Rightarrow>
          BroadcastMessage_loop tr rest messageType msg (errs @ errs') log')"

definition BroadcastMessage_Send ::
  "MessageType \<Rightarrow> transport \<Rightarrow> Manager \<Rightarrow> BroadcastMessage \<Rightarrow> WriteAttempt list
    \<Rightarrow> error option \<times> BroadcastMessage \<times> WriteAttempt list" where
  "BroadcastMessage_Send dflt tr server m0 log =
     (let m = ensureValidBroadcastMessage dflt m0 in
      if BroadcastMessage.EndpointPath m = [] then
        (case BroadcastMessage_loop tr (EndpointMap server)
                (BroadcastMessage.MessageType m) (BroadcastMessage.Message m) [] log of
           (errs, log') \<Rightarrow>
             (if length errs > 0
              then Some (BroadcastMessageError (BroadcastMessage.EndpointPath m) errs)
              else None, m, log'))
      else
        (case GetEndpoint server (BroadcastMessage.EndpointPath m) of
           None \<Rightarrow> (Some (EndpointNotFoundError (BroadcastMessage.EndpointPath m)), m, log)
         | Some endpoint \<Rightarrow>
             (case writeMessageForConns tr (ConnMap endpoint)
                     (BroadcastMessage.MessageType m) (BroadcastMessage.Message m) log of
                (errs, log') \<Rightarrow>
                  (if length errs > 0
                   then Some (BroadcastMessageError (BroadcastMessage.EndpointPath m) errs)
                   else None, m, log'))))"

fun SendMessage_loop ::
  "transport \<Rightarrow> Endpoint \<Rightarrow> ConnId list \<Rightarrow> MessageType \<Rightarrow> bytes \<Rightarrow> error list
    \<Rightarrow> WriteAttempt list \<Rightarrow> error list \<times> WriteAttempt list" where
  "SendMessage_loop tr e [] messageType msg errs log = (errs, log)"
| "SendMessage_loop tr e (connId # rest) messageType msg errs log =
     (case Endpoint_GetConn e connId of
        None \<Rightarrow>
          SendMessage_loop tr e rest messageType msg
            (errs @ [ConnNotFoundError (Endpoint.EndpointPath e) connId]) log
      | Some conn \<Rightarrow>
          (case WriteMessage tr conn messageType msg log of
             (None, log') \<Rightarrow> SendMessage_loop tr e rest messageType msg errs log'
           | (Some err, log') \<Rightarrow>
               SendMessage_loop tr e rest messageType msg (errs @ [err]) log'))"

definition SendMessage ::
  "MessageType \<Rightarrow> transport \<Rightarrow> Endpoint \<Rightarrow> EndpointMessage \<Rightarrow> WriteAttempt list
    \<Rightarrow> error option \<times> EndpointMessage \<times> WriteAttempt list" where
  "SendMessage dflt tr e msg0 log =
     (let msg = ensureValidEndpointMessage dflt msg0 in
      case (if length (ConnIds msg) = 0
            then writeMessageForConns tr (ConnMap e)
                   (EndpointMessage.MessageType msg) (EndpointMessage.Message msg) log
            else SendMessage_loop tr e (ConnIds msg)
                   (EndpointMessage.MessageType msg) (EndpointMessage.Message msg) [] log) of
        (errs, log') \<Rightarrow>
          (if length errs > 0
           then Some (EndpointMessageError (Endpoint.EndpointPath e) errs)
           else None, msg, log'))"

section \<open>Vocabulary of the statements\<close>

text \<open>
  \<open>writes tr conns k data log\<close> is what the transport records when the frame
  \<open>(k, data)\<close> is written to the connections \<open>conns\<close> one after the other, starting
  from the history \<open>log\<close>. \<open>failures\<close> picks the errors of the failed writes out of a
  stretch of the log, in the order of the writes, and \<open>frame\<close> is what an attempt tried
  to write, and where.
\<close>

fun writes ::
  "transport \<Rightarrow> WebSocketConn list \<Rightarrow> int \<Rightarrow> bytes \<Rightarrow> WriteAttempt list \<Rightarrow> WriteAttempt list" where
  "writes tr [] k data log = []"
| "writes tr (conn # rest) k data log =
     \<lparr>w_conn = conn, w_messageType = k, w_data = data, w_err = tr log conn k data\<rparr>
       # writes tr rest k data
           (log @ [\<lparr>w_conn = conn, w_messageType = k, w_data = data,
                    w_err = tr log conn k data\<rparr>])"

definition failed :: "WriteAttempt list \<Rightarrow> WriteAttempt list" where
  "failed ws = filter (\<lambda>w. w_err w \<noteq> None) ws"

definition failures :: "WriteAttempt list \<Rightarrow> error list" where
  "failures ws = map (\<lambda>w. TransportError (the (w_err w))) (failed ws)"

definition frame :: "WriteAttempt \<Rightarrow> WebSocketConn \<times> int \<times> bytes" where
  "frame w = (w_conn w, w_messageType w, w_data w)"

text \<open>Every connection of every endpoint of a Manager's map, in the order of a traversal.\<close>

definition all_conns :: "(EndpointPath \<times> Endpoint) list \<Rightarrow> WebSocketConn list" where
  "all_conns es = concat (map (\<lambda>(path, endpoint). map snd (ConnMap endpoint)) es)"

fun isConnNotFound :: "error \<Rightarrow> bool" where
  "isConnNotFound (ConnNotFoundError path connId) = True"
| "isConnNotFound (MultiMessageError errs) = False"
| "isConnNotFound (EndpointNotFoundError path) = False"
| "isConnNotFound (EndpointMessageError path errs) = False"
| "isConnNotFound (BroadcastMessageError path errs) = False"
| "isConnNotFound (TransportError text) = False"

text \<open>
  The batch as the specification describes it: each entry is sent on its own by the
  point-to-point send, in batch order, a nil entry sending nothing. \<open>sub_sends\<close> gives the
  outcome of every entry (\<open>None\<close> for a nil entry and for a send that succeeded) and the
  log after the last of them; \<open>errors_of\<close> keeps the errors of a list of outcomes, in
  their order.
\<close>

fun sub_sends ::
  "MessageType \<Rightarrow> transport \<Rightarrow> Manager \<Rightarrow> Message option list \<Rightarrow> WriteAttempt list
    \<Rightarrow> error option list \<times> WriteAttempt list" where
  "sub_sends dflt tr server [] log = ([], log)"
| "sub_sends dflt tr server (None # rest) log =
     (case sub_sends dflt tr server rest log of (rs, log') \<Rightarrow> (None # rs, log'))"
| "sub_sends dflt tr server (Some m # rest) log =
     (case Message_Send dflt tr server m log of
        (r, m', log1) \<Rightarrow>
          (case sub_sends dflt tr server rest log1 of (rs, log') \<Rightarrow> (r # rs, log')))"

fun errors_of :: "error option list \<Rightarrow> error list" where
  "errors_of [] = []"
| "errors_of (None # rs) = errors_of rs"
| "errors_of (Some e # rs) = e # errors_of rs"

section \<open>Concrete scenarios\<close>

text \<open>
  The endpoint \<open>/chat\<close> with the connections \<open>u1\<close> and \<open>u2\<close>, another endpoint
  made for the same path, the endpoint \<open>/news\<close> with the connection \<open>u3\<close>, and two
  kinds of transport: one on which every write succeeds, and one on which the writes to
  one given connection fail with the transport's \<open>close sent\<close> error. The messages
  all leave their kind unset.
\<close>

definition chat :: Endpoint where
  "chat = \<lparr>Endpoint.EndpointPath = ''/chat'', MsgChan = Some 1,
            ConnMap = [(''u1'', 1), (''u2'', 2)]\<rparr>"

definition chat_again :: Endpoint where
  "chat_again = \<lparr>Endpoint.EndpointPath = ''/chat'', MsgChan = Some 2, ConnMap = []\<rparr>"

definition news :: Endpoint where
  "news = \<lparr>Endpoint.EndpointPath = ''/news'', MsgChan = Some 3, ConnMap = [(''u3'', 3)]\<rparr>"

definition chat_server :: Manager where
  "chat_server = \<lparr>EndpointMap = [(''/chat'', chat)]\<rparr>"

definition two_servers :: Manager where
  "two_servers = \<lparr>EndpointMap = [(''/chat'', chat), (''/news'', news)]\<rparr>"

definition all_writes_succeed :: transport where
  "all_writes_succeed log conn k data = None"

definition writes_fail_on :: "WebSocketConn \<Rightarrow> transport" where
  "writes_fail_on bad log conn k data =
     (if conn = bad then Some ''websocket: close sent'' else None)"

definition hi :: bytes where
  "hi = [104, 105]"

definition to_all :: BroadcastMessage where
  "to_all = \<lparr>BroadcastMessage.MessageType = 0, EndpointPath = [], Message = hi\<rparr>"

definition to_chat :: BroadcastMessage where
  "to_chat = \<lparr>BroadcastMessage.MessageType = 0, EndpointPath = ''/chat'', Message = hi\<rparr>"

definition to_missing :: BroadcastMessage where
  "to_missing = \<lparr>BroadcastMessage.MessageType = 0, EndpointPath = ''/missing'', Message = hi\<rparr>"

definition to_u1 :: Message where
  "to_u1 = \<lparr>Message.MessageType = 0, Message = hi, EndpointPath = ''/chat'', ConnId = ''u1''\<rparr>"

definition to_u9 :: Message where
  "to_u9 = \<lparr>Message.MessageType = 0, Message = hi, EndpointPath = ''/chat'', ConnId = ''u9''\<rparr>"

definition to_nobody :: Message where
  "to_nobody = \<lparr>Message.MessageType = 0, Message = hi, EndpointPath = ''/missing'', ConnId = ''u1''\<rparr>"

definition to_u2 :: Message where
  "to_u2 = \<lparr>Message.MessageType = 0, Message = hi, EndpointPath = ''/chat'', ConnId = ''u2''\<rparr>"

definition batch :: MultiMessage where
  "batch = \<lparr>Messages = [Some to_u9, None, Some to_u2, Some to_nobody, Some to_u1]\<rparr>"

definition empty_batch :: MultiMessage where
  "empty_batch = \<lparr>Messages = []\<rparr>"

definition some_ids :: EndpointMessage where
  "some_ids = \<lparr>EndpointMessage.MessageType = 0, Message = hi, ConnIds = [''u9'', ''u2'', ''u1'']\<rparr>"

definition no_ids :: EndpointMessage where
  "no_ids = \<lparr>EndpointMessage.MessageType = 0, Message = hi, ConnIds = []\<rparr>"

section \<open>Association lists and the write log\<close>

lemma map_fst_update_present:
  "map_of al k = Some v' \<Longrightarrow> map fst (AList.update k v al) = map fst al"
  by (induction al) (auto split: if_splits)

lemma update_absent:
  "map_of al k = None \<Longrightarrow> AList.update k v al = al @ [(k, v)]"
  by (induction al) (auto split: if_splits)

lemma writes_append:
  "writes tr (cs @ ds) k p log
     = writes tr cs k p log @ writes tr ds k p (log @ writes tr cs k p log)"
  by (induction cs arbitrary: log) simp_all

lemma frame_writes: "map frame (writes tr cs k p log) = map (\<lambda>c. (c, k, p)) cs"
  by (induction cs arbitrary: log) (simp_all add: frame_def)

lemma failures_Nil [simp]: "failures [] = []"
  by (simp add: failures_def failed_def)

lemma failures_Cons:
  "failures (w # ws) =
     (case w_err w of None \<Rightarrow> failures ws | Some t \<Rightarrow> TransportError t # failures ws)"
  by (simp add: failures_def failed_def split: option.splits)

lemma failures_append: "failures (xs @ ys) = failures xs @ failures ys"
  by (simp add: failures_def failed_def)

lemma failed_Nil_iff: "failed ws = [] \<longleftrightarrow> failures ws = []"
  by (simp add: failures_def)

lemma length_failures: "length (failures ws) = length (failed ws)"
  by (simp add: failures_def)

subsection \<open>The traversals in closed form\<close>

lemma writeMessageForConns_loop_eq:
  "writeMessageForConns_loop tr conns k p errs log
     = (errs @ failures (writes tr (map snd conns) k p log),
        log @ writes tr (map snd conns) k p log)"
proof (induction conns arbitrary: errs log)
  case Nil
  then show ?case by simp
next
  case (Cons a conns)
  obtain i c where a: "a = (i, c)" by (cases a)
  show ?case
    by (cases "tr log c k p") (simp_all add: a WriteMessage_def Cons.IH failures_Cons)
qed

lemma writeMessageForConns_eq:
  "writeMessageForConns tr conns k p log
     = (failures (writes tr (map snd conns) k p log), log @ writes tr (map snd conns) k p log)"
  by (simp add: writeMessageForConns_def writeMessageForConns_loop_eq)

lemma BroadcastMessage_loop_eq:
  "BroadcastMessage_loop tr es k p errs log
     = (errs @ failures (writes tr (all_conns es) k p log),
        log @ writes tr (all_conns es) k p log)"
proof (induction es arbitrary: errs log)
  case Nil
  then show ?case by (simp add: all_conns_def)
next
  case (Cons a es)
  obtain path e where a: "a = (path, e)" by (cases a)
  have ac: "all_conns ((path, e) # es) = map snd (ConnMap e) @ all_conns es"
    by (simp add: all_conns_def)
  show ?case
    by (simp add: a ac writeMessageForConns_eq Cons.IH writes_append failures_append)
qed

section \<open>Registration\<close>

text \<open>
  Claim C9. Registering an endpoint stores it under its path, whatever was there: looking
  the path up afterwards gives the endpoint just registered, every other path is as it was,
  and the call has no error result. Over a path already registered the entry is replaced
  (the keys of the map are unchanged); over a new path one entry is added.
\<close>

theorem AddEndpoint_last_write_wins:
  "GetEndpoint (AddEndpoint s e) (Endpoint.EndpointPath e) = Some e
   \<and> (p \<noteq> Endpoint.EndpointPath e \<longrightarrow> GetEndpoint (AddEndpoint s e) p = GetEndpoint s p)
   \<and> (GetEndpoint s (Endpoint.EndpointPath e) = Some old \<longrightarrow>
        map fst (EndpointMap (AddEndpoint s e)) = map fst (EndpointMap s))
   \<and> (GetEndpoint s (Endpoint.EndpointPath e) = None \<longrightarrow>
        EndpointMap (AddEndpoint s e) = EndpointMap s @ [(Endpoint.EndpointPath e, e)])"
  by (simp add: GetEndpoint_def AddEndpoint_def Add_def update_conv' map_fst_update_present
      update_absent)

theorem AddEndpoint_last_write_wins_witness:
  "GetEndpoint (AddEndpoint NewManager chat) ''/chat'' = Some chat
   \<and> GetEndpoint (AddEndpoint (AddEndpoint NewManager chat) chat_again) ''/chat''
       = Some chat_again
   \<and> GetEndpoint (AddEndpoint (AddEndpoint NewManager chat) chat_again) ''/other''
       = GetEndpoint (AddEndpoint NewManager chat) ''/other''
   \<and> map fst (EndpointMap (AddEndpoint (AddEndpoint NewManager chat) chat_again)) = [''/chat'']
   \<and> EndpointMap (AddEndpoint NewManager chat) = [(''/chat'', chat)]"
proof -
  have p1: "Endpoint.EndpointPath chat = ''/chat''"
    and p2: "Endpoint.EndpointPath chat_again = ''/chat''"
    by (simp_all add: chat_def chat_again_def)
  have a: "GetEndpoint (AddEndpoint NewManager chat) ''/chat'' = Some chat"
    using AddEndpoint_last_write_wins [of NewManager chat] p1 by simp
  have n: "GetEndpoint NewManager ''/chat'' = None"
    by (simp add: GetEndpoint_def NewManager_def)
  have k1: "EndpointMap (AddEndpoint NewManager chat) = [(''/chat'', chat)]"
    using AddEndpoint_last_write_wins [of NewManager chat] n p1
    by (simp add: NewManager_def)
  show ?thesis
    using AddEndpoint_last_write_wins
      [of "AddEndpoint NewManager chat" chat_again "''/other''" chat] a k1 p1 p2
    by simp
qed

section \<open>Read-only accessors on an unknown path\<close>

text \<open>
  Claim C8 asks that \<open>GetConnCount\<close> and \<open>GetMsgChan\<close> both answer an unknown path in a
  defined way, and alike. On the Manager that \<open>NewManager\<close> returns, \<open>GetMsgChan\<close> of
  \<open>/missing\<close> returns the nil channel, while \<open>GetConnCount\<close> of the same path
  dereferences the nil endpoint and panics.
\<close>

theorem GetConnCount_unknown_path_panics:
  "GetConnCount NewManager ''/missing'' = Inl NilPointerDereference
   \<and> GetMsgChan NewManager ''/missing'' = Inr None"
  by (simp add: GetConnCount_def GetMsgChan_def GetEndpoint_def NewManager_def)

section \<open>Broadcast\<close>

text \<open>
  Claim C2. A broadcast with the empty endpoint path writes its frame once to every
  connection of every endpoint. It returns nil when none of these writes failed, and
  otherwise one \<open>BroadcastMessageError\<close> with the empty path whose errors are those of the
  failed writes, one for each, so that their number is the number of failed writes.
\<close>

theorem BroadcastMessage_Send_everywhere:
  assumes "BroadcastMessage.EndpointPath m = []"
    and "BroadcastMessage_Send dflt tr server m log = (r, m', log')"
  shows "\<exists>new. log' = log @ new
     \<and> map frame new =
         map (\<lambda>conn. (conn,
                 if BroadcastMessage.MessageType m = 0 then dflt
                 else BroadcastMessage.MessageType m,
                 BroadcastMessage.Message m))
           (all_conns (EndpointMap server))
     \<and> r = (if failed new = [] then None else Some (BroadcastMessageError [] (failures new)))
     \<and> length (failures new) = length (failed new)"
proof -
  let ?k = "if BroadcastMessage.MessageType m = 0 then dflt else BroadcastMessage.MessageType m"
  let ?new = "writes tr (all_conns (EndpointMap server)) ?k (BroadcastMessage.Message m) log"
  have "log' = log @ ?new"
    and "r = (if failed ?new = [] then None else Some (BroadcastMessageError [] (failures ?new)))"
    using assms
    by (auto simp add: BroadcastMessage_Send_def ensureValidBroadcastMessage_def Let_def
        BroadcastMessage_loop_eq failed_Nil_iff split: if_splits)
  then show ?thesis
    using frame_writes length_failures by blast
qed

theorem BroadcastMessage_Send_everywhere_witness:
  "BroadcastMessage.EndpointPath to_all = []
   \<and> BroadcastMessage_Send TextMessage (writes_fail_on 2) two_servers to_all []
       = (Some (BroadcastMessageError [] [TransportError ''websocket: close sent'']),
          to_all\<lparr>BroadcastMessage.MessageType := 1\<rparr>,
          [\<lparr>w_conn = 1, w_messageType = 1, w_data = hi, w_err = None\<rparr>,
           \<lparr>w_conn = 2, w_messageType = 1, w_data = hi, w_err = Some ''websocket: close sent''\<rparr>,
           \<lparr>w_conn = 3, w_messageType = 1, w_data = hi, w_err = None\<rparr>])
   \<and> (\<exists>new. [\<lparr>w_conn = 1, w_messageType = 1, w_data = hi, w_err = None\<rparr>,
           \<lparr>w_conn = 2, w_messageType = 1, w_data = hi, w_err = Some ''websocket: close sent''\<rparr>,
           \<lparr>w_conn = 3, w_messageType = 1, w_data = hi, w_err = None\<rparr>] = [] @ new
        \<and> map frame new = [(1, 1, hi), (2, 1, hi), (3, 1, hi)]
        \<and> length (failures new) = 1)"
proof -
  have h1: "BroadcastMessage.EndpointPath to_all = []"
    by (simp add: to_all_def)
  have h2: "BroadcastMessage_Send TextMessage (writes_fail_on 2) two_servers to_all []
       = (Some (BroadcastMessageError [] [TransportError ''websocket: close sent'']),
          to_all\<lparr>BroadcastMessage.MessageType := 1\<rparr>,
          [\<lparr>w_conn = 1, w_messageType = 1, w_data = hi, w_err = None\<rparr>,
           \<lparr>w_conn = 2, w_messageType = 1, w_data = hi, w_err = Some ''websocket: close sent''\<rparr>,
           \<lparr>w_conn = 3, w_messageType = 1, w_data = hi, w_err = None\<rparr>])"
    by (simp add: BroadcastMessage_Send_def ensureValidBroadcastMessage_def to_all_def Let_def
        two_servers_def chat_def news_def writeMessageForConns_def WriteMessage_def
        writes_fail_on_def TextMessage_def)
  show ?thesis
    using BroadcastMessage_Send_everywhere [OF h1 h2] h1 h2
    by (simp add: all_conns_def two_servers_def chat_def news_def to_all_def TextMessage_def
        failed_def)
qed

text \<open>
  Claim C5. A broadcast with a non-empty endpoint path that is not registered returns an
  \<open>EndpointNotFoundError\<close> for that path, which is no aggregate, and writes nothing.
  When the path is registered it writes its frame once to every connection of that
  endpoint, and returns nil when no write failed and otherwise a \<open>BroadcastMessageError\<close>
  for that path holding the errors of the failed writes and nothing else.
\<close>

theorem BroadcastMessage_Send_one_endpoint:
  assumes "BroadcastMessage.EndpointPath m \<noteq> []"
    and "BroadcastMessage_Send dflt tr server m log = (r, m', log')"
  shows "(GetEndpoint server (BroadcastMessage.EndpointPath m) = None \<longrightarrow>
            r = Some (EndpointNotFoundError (BroadcastMessage.EndpointPath m)) \<and> log' = log)
     \<and> (\<forall>endpoint. GetEndpoint server (BroadcastMessage.EndpointPath m) = Some endpoint \<longrightarrow>
          (\<exists>new. log' = log @ new
             \<and> map frame new =
                 map (\<lambda>(connId, conn). (conn,
                         if BroadcastMessage.MessageType m = 0 then dflt
                         else BroadcastMessage.MessageType m,
                         BroadcastMessage.Message m))
                   (ConnMap endpoint)
             \<and> r = (if failed new = [] then None
                    else Some (BroadcastMessageError (BroadcastMessage.EndpointPath m)
                                 (failures new)))))"
proof -
  let ?k = "if BroadcastMessage.MessageType m = 0 then dflt else BroadcastMessage.MessageType m"
  have absent: "r = Some (EndpointNotFoundError (BroadcastMessage.EndpointPath m)) \<and> log' = log"
    if "GetEndpoint server (BroadcastMessage.EndpointPath m) = None"
    using assms that
    by (auto simp add: BroadcastMessage_Send_def ensureValidBroadcastMessage_def Let_def
        split: if_splits)
  have present: "\<exists>new. log' = log @ new
             \<and> map frame new =
                 map (\<lambda>(connId, conn). (conn, ?k, BroadcastMessage.Message m)) (ConnMap endpoint)
             \<and> r = (if failed new = [] then None
                    else Some (BroadcastMessageError (BroadcastMessage.EndpointPath m)
                                 (failures new)))"
    if e: "GetEndpoint server (BroadcastMessage.EndpointPath m) = Some endpoint" for endpoint
  proof -
    let ?new = "writes tr (map snd (ConnMap endpoint)) ?k (BroadcastMessage.Message m) log"
    have "log' = log @ ?new"
      and "r = (if failed ?new = [] then None
                else Some (BroadcastMessageError (BroadcastMessage.EndpointPath m) (failures ?new)))"
      using assms e
      by (auto simp add: BroadcastMessage_Send_def ensureValidBroadcastMessage_def Let_def
          writeMessageForConns_eq failed_Nil_iff split: if_splits)
    moreover have "map frame ?new =
        map (\<lambda>(connId, conn). (conn, ?k, BroadcastMessage.Message m)) (ConnMap endpoint)"
      by (simp add: frame_writes case_prod_unfold)
    ultimately show ?thesis
      by blast
  qed
  show ?thesis
    using absent present by blast
qed

theorem BroadcastMessage_Send_one_endpoint_witness:
  "BroadcastMessage.EndpointPath to_chat \<noteq> []
   \<and> BroadcastMessage_Send TextMessage (writes_fail_on 2) chat_server to_chat []
       = (Some (BroadcastMessageError ''/chat'' [TransportError ''websocket: close sent'']),
          to_chat\<lparr>BroadcastMessage.MessageType := 1\<rparr>,
          [\<lparr>w_conn = 1, w_messageType = 1, w_data = hi, w_err = None\<rparr>,
           \<lparr>w_conn = 2, w_messageType = 1, w_data = hi, w_err = Some ''websocket: close sent''\<rparr>])
   \<and> GetEndpoint chat_server ''/chat'' = Some chat
   \<and> (\<exists>new. [\<lparr>w_conn = 1, w_messageType = 1, w_data = hi, w_err = None\<rparr>,
           \<lparr>w_conn = 2, w_messageType = 1, w_data = hi, w_err = Some ''websocket: close sent''\<rparr>]
            = [] @ new
        \<and> map frame new = [(1, 1, hi), (2, 1, hi)]
        \<and> failures new = [TransportError ''websocket: close sent''])
   \<and> BroadcastMessage.EndpointPath to_missing \<noteq> []
   \<and> GetEndpoint chat_server ''/missing'' = None
   \<and> BroadcastMessage_Send TextMessage all_writes_succeed chat_server to_missing []
       = (Some (EndpointNotFoundError ''/missing''),
          to_missing\<lparr>BroadcastMessage.MessageType := 1\<rparr>, [])"
proof -
  have h1: "BroadcastMessage.EndpointPath to_chat \<noteq> []"
    by (simp add: to_chat_def)
  have h2: "BroadcastMessage_Send TextMessage (writes_fail_on 2) chat_server to_chat []
       = (Some (BroadcastMessageError ''/chat'' [TransportError ''websocket: close sent'']),
          to_chat\<lparr>BroadcastMessage.MessageType := 1\<rparr>,
          [\<lparr>w_conn = 1, w_messageType = 1, w_data = hi, w_err = None\<rparr>,
           \<lparr>w_conn = 2, w_messageType = 1, w_data = hi, w_err = Some ''websocket: close sent''\<rparr>])"
    by (simp add: BroadcastMessage_Send_def ensureValidBroadcastMessage_def to_chat_def Let_def
        chat_server_def chat_def GetEndpoint_def writeMessageForConns_def WriteMessage_def
        writes_fail_on_def TextMessage_def)
  have h3: "GetEndpoint chat_server ''/chat'' = Some chat"
    by (simp add: GetEndpoint_def chat_server_def)
  have g1: "BroadcastMessage.EndpointPath to_missing \<noteq> []"
    by (simp add: to_missing_def)
  have g3: "GetEndpoint chat_server ''/missing'' = None"
    by (simp add: GetEndpoint_def chat_server_def)
  obtain r m' log' where g2:
    "BroadcastMessage_Send TextMessage all_writes_succeed chat_server to_missing [] = (r, m', log')"
    by (cases "BroadcastMessage_Send TextMessage all_writes_succeed chat_server to_missing []")
  have g4: "m' = to_missing\<lparr>BroadcastMessage.MessageType := 1\<rparr>"
    using g2 g3
    by (simp add: BroadcastMessage_Send_def ensureValidBroadcastMessage_def to_missing_def Let_def
        TextMessage_def)
  have new: "\<exists>new. [\<lparr>w_conn = 1, w_messageType = 1, w_data = hi, w_err = None\<rparr>,
           \<lparr>w_conn = 2, w_messageType = 1, w_data = hi, w_err = Some ''websocket: close sent''\<rparr>]
            = [] @ new
        \<and> map frame new = [(1, 1, hi), (2, 1, hi)]
        \<and> failures new = [TransportError ''websocket: close sent'']"
    using BroadcastMessage_Send_one_endpoint [OF h1 h2] h3
    by (simp add: to_chat_def chat_def TextMessage_def failed_def failures_def)
  have miss: "r = Some (EndpointNotFoundError ''/missing'') \<and> log' = []"
    using BroadcastMessage_Send_one_endpoint [OF g1 g2] g3
    by (simp add: to_missing_def)
  show ?thesis
    using h1 h2 h3 new g1 g3 g2 g4 miss by simp
qed

section \<open>Point-to-point send\<close>

text \<open>
  Claim C1, as the code has it. \<open>Message.Send\<close> asks \<open>Manager.GetConn\<close> for the
  connection, which answers nil both for an unregistered path and for an id the endpoint
  does not hold. The send therefore fails with \<open>ConnNotFoundError\<close>, carrying the
  message's own path and id, exactly when the path is unregistered or the endpoint is there
  and the id is absent; it never returns \<open>EndpointNotFoundError\<close>.
\<close>

theorem Message_Send_not_found:
  "(fst (Message_Send dflt tr server m log) = Some (ConnNotFoundError path connId)
      \<longleftrightarrow> path = Message.EndpointPath m \<and> connId = Message.ConnId m
          \<and> (GetEndpoint server (Message.EndpointPath m) = None
             \<or> (\<exists>endpoint. GetEndpoint server (Message.EndpointPath m) = Some endpoint
                   \<and> Endpoint_GetConn endpoint (Message.ConnId m) = None)))
   \<and> fst (Message_Send dflt tr server m log) \<noteq> Some (EndpointNotFoundError path)"
  by (cases "GetEndpoint server (Message.EndpointPath m)")
    (auto simp add: Message_Send_def ensureValidMessageType_def GetConn_def Let_def
      WriteMessage_def split: option.splits)

theorem Message_Send_not_found_witness:
  "fst (Message_Send TextMessage all_writes_succeed chat_server to_u9 [])
     = Some (ConnNotFoundError ''/chat'' ''u9'')
   \<and> GetEndpoint chat_server ''/chat'' = Some chat
   \<and> Endpoint_GetConn chat ''u9'' = None
   \<and> fst (Message_Send TextMessage all_writes_succeed chat_server to_nobody [])
     = Some (ConnNotFoundError ''/missing'' ''u1'')
   \<and> GetEndpoint chat_server ''/missing'' = None
   \<and> fst (Message_Send TextMessage all_writes_succeed chat_server to_u1 []) = None"
proof -
  have a: "GetEndpoint chat_server ''/chat'' = Some chat"
    and b: "Endpoint_GetConn chat ''u9'' = None"
    and c: "GetEndpoint chat_server ''/missing'' = None"
    by (simp_all add: GetEndpoint_def chat_server_def Endpoint_GetConn_def chat_def)
  have d: "fst (Message_Send TextMessage all_writes_succeed chat_server to_u1 []) = None"
    by (simp add: Message_Send_def ensureValidMessageType_def GetConn_def GetEndpoint_def
      chat_server_def to_u1_def Let_def Endpoint_GetConn_def chat_def WriteMessage_def
      all_writes_succeed_def)
  have e: "fst (Message_Send TextMessage all_writes_succeed chat_server to_u9 [])
     = Some (ConnNotFoundError ''/chat'' ''u9'')"
    using Message_Send_not_found
      [of TextMessage all_writes_succeed chat_server to_u9 "[]" "''/chat''" "''u9''"] a b
    by (simp add: to_u9_def)
  have f: "fst (Message_Send TextMessage all_writes_succeed chat_server to_nobody [])
     = Some (ConnNotFoundError ''/missing'' ''u1'')"
    using Message_Send_not_found
      [of TextMessage all_writes_succeed chat_server to_nobody "[]" "''/missing''" "''u1''"] c
    by (simp add: to_nobody_def)
  show ?thesis
    using a b c d e f by simp
qed

text \<open>
  Claim C1 as stated says that an unregistered path gives "endpoint not found" and that
  "connection not found" means the endpoint exists. On the empty Manager a message for
  \<open>/missing\<close>, \<open>u1\<close> gives \<open>ConnNotFoundError\<close> although no endpoint is registered.
\<close>

theorem Message_Send_unregistered_path:
  "GetEndpoint NewManager (Message.EndpointPath to_nobody) = None
   \<and> fst (Message_Send TextMessage all_writes_succeed NewManager to_nobody [])
       = Some (ConnNotFoundError ''/missing'' ''u1'')
   \<and> fst (Message_Send TextMessage all_writes_succeed NewManager to_nobody [])
       \<noteq> Some (EndpointNotFoundError ''/missing'')
   \<and> map_option Error (fst (Message_Send TextMessage all_writes_succeed NewManager to_nobody []))
       = Some ''connection not found: endpointPath=/missing connId=u1''"
  by (simp add: Message_Send_def ensureValidMessageType_def GetConn_def GetEndpoint_def
      NewManager_def to_nobody_def Let_def)

section \<open>Per-endpoint multicast\<close>

lemma SendMessage_loop_eq:
  "\<exists>E. SendMessage_loop tr e ids k p errs log
          = (errs @ E, log @ writes tr (List.map_filter (Endpoint_GetConn e) ids) k p log)
     \<and> filter isConnNotFound E
          = map (ConnNotFoundError (Endpoint.EndpointPath e))
              (filter (\<lambda>i. Endpoint_GetConn e i = None) ids)
     \<and> filter (\<lambda>x. \<not> isConnNotFound x) E
          = failures (writes tr (List.map_filter (Endpoint_GetConn e) ids) k p log)"
proof (induction ids arbitrary: errs log)
  case Nil
  then show ?case by simp
next
  case (Cons i ids)
  show ?case
  proof (cases "Endpoint_GetConn e i")
    case None
    from Cons.IH [of "errs @ [ConnNotFoundError (Endpoint.EndpointPath e) i]" log]
    obtain E where
      "SendMessage_loop tr e ids k p (errs @ [ConnNotFoundError (Endpoint.EndpointPath e) i]) log
          = ((errs @ [ConnNotFoundError (Endpoint.EndpointPath e) i]) @ E,
             log @ writes tr (List.map_filter (Endpoint_GetConn e) ids) k p log)"
      and "filter isConnNotFound E
          = map (ConnNotFoundError (Endpoint.EndpointPath e))
              (filter (\<lambda>i. Endpoint_GetConn e i = None) ids)"
      and "filter (\<lambda>x. \<not> isConnNotFound x) E
          = failures (writes tr (List.map_filter (Endpoint_GetConn e) ids) k p log)"
      by blast
    then show ?thesis
      using None
      by (intro exI [of _ "ConnNotFoundError (Endpoint.EndpointPath e) i # E"])
        simp
  next
    case (Some c)
    let ?w = "\<lparr>w_conn = c, w_messageType = k, w_data = p, w_err = tr log c k p\<rparr>"
    show ?thesis
    proof (cases "tr log c k p")
      case None
      from Cons.IH [of errs "log @ [?w]"]
      obtain E where
        "SendMessage_loop tr e ids k p errs (log @ [?w])
            = (errs @ E,
               (log @ [?w]) @ writes tr (List.map_filter (Endpoint_GetConn e) ids) k p (log @ [?w]))"
        and "filter isConnNotFound E
            = map (ConnNotFoundError (Endpoint.EndpointPath e))
                (filter (\<lambda>i. Endpoint_GetConn e i = None) ids)"
        and "filter (\<lambda>x. \<not> isConnNotFound x) E
            = failures (writes tr (List.map_filter (Endpoint_GetConn e) ids) k p (log @ [?w]))"
        by blast
      then show ?thesis
        using None Some
        by (intro exI [of _ E]) (simp add: WriteMessage_def failures_Cons)
    next
      case (Some t)
      from Cons.IH [of "errs @ [TransportError t]" "log @ [?w]"]
      obtain E where
        "SendMessage_loop tr e ids k p (errs @ [TransportError t]) (log @ [?w])
            = ((errs @ [TransportError t]) @ E,
               (log @ [?w]) @ writes tr (List.map_filter (Endpoint_GetConn e) ids) k p (log @ [?w]))"
        and "filter isConnNotFound E
            = map (ConnNotFoundError (Endpoint.EndpointPath e))
                (filter (\<lambda>i. Endpoint_GetConn e i = None) ids)"
        and "filter (\<lambda>x. \<not> isConnNotFound x) E
            = failures (writes tr (List.map_filter (Endpoint_GetConn e) ids) k p (log @ [?w]))"
        by blast
      then show ?thesis
        using Some \<open>Endpoint_GetConn e i = Some c\<close>
        by (intro exI [of _ "TransportError t # E"])
          (simp add: WriteMessage_def failures_Cons)
    qed
  qed
qed

lemma isConnNotFound_failures [simp]:
  "filter isConnNotFound (failures ws) = []"
  "filter (\<lambda>x. \<not> isConnNotFound x) (failures ws) = failures ws"
  by (induction ws) (simp_all add: failures_Cons split: option.splits)

text \<open>
  Claim C3. \<open>Endpoint.SendMessage\<close> with an empty id list writes its frame once to every
  connection in the endpoint's table, so with an empty table it writes nothing and
  succeeds. With ids given it writes, in their order, to the connection of every id the
  table holds and to nothing else, and records one \<open>ConnNotFoundError\<close> for the
  endpoint's path and the id for every id the table does not hold, going on with the ids
  that follow. The errors collected are these and the errors of the failed writes; the
  result is nil when there are none, and otherwise one \<open>EndpointMessageError\<close> for the
  endpoint's path that holds them all.
\<close>

theorem SendMessage_multicast:
  assumes "SendMessage dflt tr e msg log = (r, msg', log')"
  shows "\<exists>new errs. log' = log @ new
     \<and> map frame new =
         map (\<lambda>conn. (conn,
                 if EndpointMessage.MessageType msg = 0 then dflt
                 else EndpointMessage.MessageType msg,
                 EndpointMessage.Message msg))
           (if ConnIds msg = [] then map snd (ConnMap e)
            else List.map_filter (Endpoint_GetConn e) (ConnIds msg))
     \<and> filter isConnNotFound errs =
         map (ConnNotFoundError (Endpoint.EndpointPath e))
           (filter (\<lambda>connId. Endpoint_GetConn e connId = None) (ConnIds msg))
     \<and> filter (\<lambda>x. \<not> isConnNotFound x) errs = failures new
     \<and> r = (if errs = [] then None
            else Some (EndpointMessageError (Endpoint.EndpointPath e) errs))
     \<and> (ConnIds msg = [] \<and> ConnMap e = [] \<longrightarrow> new = [] \<and> errs = [])"
proof -
  let ?k = "if EndpointMessage.MessageType msg = 0 then dflt else EndpointMessage.MessageType msg"
  let ?p = "EndpointMessage.Message msg"
  have norm: "EndpointMessage.MessageType (ensureValidEndpointMessage dflt msg) = ?k"
    "EndpointMessage.Message (ensureValidEndpointMessage dflt msg) = ?p"
    "ConnIds (ensureValidEndpointMessage dflt msg) = ConnIds msg"
    by (simp_all add: ensureValidEndpointMessage_def)
  show ?thesis
  proof (cases "ConnIds msg = []")
    case True
    let ?new = "writes tr (map snd (ConnMap e)) ?k ?p log"
    have "log' = log @ ?new"
      and "r = (if failures ?new = [] then None
                else Some (EndpointMessageError (Endpoint.EndpointPath e) (failures ?new)))"
      using assms True
      by (auto simp add: SendMessage_def Let_def norm writeMessageForConns_eq)
    then show ?thesis
      using True
      by (intro exI [of _ ?new] exI [of _ "failures ?new"]) (auto simp add: frame_writes)
  next
    case False
    let ?new = "writes tr (List.map_filter (Endpoint_GetConn e) (ConnIds msg)) ?k ?p log"
    from SendMessage_loop_eq [of tr e "ConnIds msg" ?k ?p "[]" log]
    obtain E where E: "SendMessage_loop tr e (ConnIds msg) ?k ?p [] log = (E, log @ ?new)"
      and nf: "filter isConnNotFound E
          = map (ConnNotFoundError (Endpoint.EndpointPath e))
              (filter (\<lambda>i. Endpoint_GetConn e i = None) (ConnIds msg))"
      and wf: "filter (\<lambda>x. \<not> isConnNotFound x) E = failures ?new"
      by auto
    have "log' = log @ ?new"
      and "r = (if E = [] then None else Some (EndpointMessageError (Endpoint.EndpointPath e) E))"
      using assms False E
      by (auto simp add: SendMessage_def Let_def norm)
    then show ?thesis
      using False nf wf
      by (intro exI [of _ ?new] exI [of _ E]) (simp add: frame_writes)
  qed
qed

theorem SendMessage_multicast_witness:
  "SendMessage TextMessage (writes_fail_on 2) chat some_ids []
     = (Some (EndpointMessageError ''/chat''
                [ConnNotFoundError ''/chat'' ''u9'', TransportError ''websocket: close sent'']),
        some_ids\<lparr>EndpointMessage.MessageType := 1\<rparr>,
        [\<lparr>w_conn = 2, w_messageType = 1, w_data = hi, w_err = Some ''websocket: close sent''\<rparr>,
         \<lparr>w_conn = 1, w_messageType = 1, w_data = hi, w_err = None\<rparr>])
   \<and> (\<exists>new errs.
         [\<lparr>w_conn = 2, w_messageType = 1, w_data = hi, w_err = Some ''websocket: close sent''\<rparr>,
          \<lparr>w_conn = 1, w_messageType = 1, w_data = hi, w_err = None\<rparr>] = [] @ new
       \<and> map frame new = [(2, 1, hi), (1, 1, hi)]
       \<and> filter isConnNotFound errs = [ConnNotFoundError ''/chat'' ''u9'']
       \<and> filter (\<lambda>x. \<not> isConnNotFound x) errs = failures new
       \<and> errs \<noteq> [])
   \<and> SendMessage TextMessage (writes_fail_on 2) chat_again no_ids []
       = (None, no_ids\<lparr>EndpointMessage.MessageType := 1\<rparr>, [])"
proof -
  have h: "SendMessage TextMessage (writes_fail_on 2) chat some_ids []
     = (Some (EndpointMessageError ''/chat''
                [ConnNotFoundError ''/chat'' ''u9'', TransportError ''websocket: close sent'']),
        some_ids\<lparr>EndpointMessage.MessageType := 1\<rparr>,
        [\<lparr>w_conn = 2, w_messageType = 1, w_data = hi, w_err = Some ''websocket: close sent''\<rparr>,
         \<lparr>w_conn = 1, w_messageType = 1, w_data = hi, w_err = None\<rparr>])"
    by (simp add: SendMessage_def ensureValidEndpointMessage_def some_ids_def Let_def
        chat_def Endpoint_GetConn_def WriteMessage_def writes_fail_on_def TextMessage_def)
  obtain r m' log' where g:
    "SendMessage TextMessage (writes_fail_on 2) chat_again no_ids [] = (r, m', log')"
    by (cases "SendMessage TextMessage (writes_fail_on 2) chat_again no_ids []")
  have m': "m' = no_ids\<lparr>EndpointMessage.MessageType := 1\<rparr>"
    using g by (auto simp add: SendMessage_def ensureValidEndpointMessage_def no_ids_def Let_def
        TextMessage_def split: prod.splits)
  have a: "\<exists>new errs.
         [\<lparr>w_conn = 2, w_messageType = 1, w_data = hi, w_err = Some ''websocket: close sent''\<rparr>,
          \<lparr>w_conn = 1, w_messageType = 1, w_data = hi, w_err = None\<rparr>] = [] @ new
       \<and> map frame new = [(2, 1, hi), (1, 1, hi)]
       \<and> filter isConnNotFound errs = [ConnNotFoundError ''/chat'' ''u9'']
       \<and> filter (\<lambda>x. \<not> isConnNotFound x) errs = failures new
       \<and> errs \<noteq> []"
    using SendMessage_multicast [OF h]
    by (simp add: some_ids_def chat_def Endpoint_GetConn_def TextMessage_def) fastforce
  have b: "r = None \<and> log' = []"
    using SendMessage_multicast [OF g]
    by (auto simp add: no_ids_def chat_again_def)
  show ?thesis
    using h a b g m' by simp
qed

section \<open>Batch\<close>

lemma Message_Send_msg:
  "Message_Send dflt tr server m log = (r, m', log') \<Longrightarrow> m' = ensureValidMessageType dflt m"
  by (auto simp add: Message_Send_def Let_def split: option.splits prod.splits)

lemma MultiMessage_loop_eq:
  "MultiMessage_loop dflt tr server ms errs log =
     (case sub_sends dflt tr server ms log of
        (rs, log') \<Rightarrow>
          (errs @ errors_of rs, map (map_option (ensureValidMessageType dflt)) ms, log'))"
proof (induction ms arbitrary: errs log)
  case Nil
  then show ?case by simp
next
  case (Cons a ms)
  show ?case
  proof (cases a)
    case None
    then show ?thesis
      by (simp add: Cons.IH split: prod.splits)
  next
    case (Some m)
    obtain r m' log1 where s: "Message_Send dflt tr server m log = (r, m', log1)"
      by (cases "Message_Send dflt tr server m log")
    show ?thesis
      using Message_Send_msg [OF s]
      by (cases r) (simp_all add: Some s Cons.IH split: prod.splits)
  qed
qed

lemma length_sub_sends: "length (fst (sub_sends dflt tr server ms log)) = length ms"
proof (induction ms arbitrary: log)
  case Nil
  then show ?case by simp
next
  case (Cons a ms)
  show ?case
  proof (cases a)
    case None
    then show ?thesis
      using Cons.IH [of log] by (simp add: case_prod_unfold)
  next
    case (Some m)
    obtain r m' log1 where s: "Message_Send dflt tr server m log = (r, m', log1)"
      by (cases "Message_Send dflt tr server m log")
    show ?thesis
      using Cons.IH [of log1] by (simp add: Some s case_prod_unfold)
  qed
qed

lemma sub_sends_nil_entry:
  "i < length ms \<Longrightarrow> ms ! i = None \<Longrightarrow> fst (sub_sends dflt tr server ms log) ! i = None"
proof (induction ms arbitrary: log i)
  case Nil
  then show ?case by simp
next
  case (Cons a ms)
  show ?case
  proof (cases a)
    case None
    then show ?thesis
      using Cons.IH [of "i - 1" log] Cons.prems
      by (cases i) (simp_all add: case_prod_unfold)
  next
    case (Some m)
    obtain r m' log1 where s: "Message_Send dflt tr server m log = (r, m', log1)"
      by (cases "Message_Send dflt tr server m log")
    show ?thesis
      using Cons.IH [of "i - 1" log1] Cons.prems
      by (cases i) (simp_all add: Some s case_prod_unfold)
  qed
qed

lemma errors_of_Nil_iff: "errors_of rs = [] \<longleftrightarrow> \<not> (\<exists>r\<in>set rs. r \<noteq> None)"
  by (induction rs rule: errors_of.induct) simp_all

text \<open>
  Claim C4. \<open>MultiMessage.Send\<close> on an empty batch returns nil and touches nothing.
  Otherwise every non-nil entry is sent by the point-to-point send, one after the other in
  batch order, and a nil entry is passed over with no error. The result is a
  \<open>MultiMessageError\<close> exactly when one of these sends failed, and then its errors are
  the errors of the failed sends in the order of the batch.
\<close>

theorem MultiMessage_Send_batch:
  "(Messages mm = [] \<longrightarrow> MultiMessage_Send dflt tr server mm log = (None, mm, log))
   \<and> (\<exists>rs log'. sub_sends dflt tr server (Messages mm) log = (rs, log')
        \<and> length rs = length (Messages mm)
        \<and> (\<forall>i<length rs. Messages mm ! i = None \<longrightarrow> rs ! i = None)
        \<and> fst (MultiMessage_Send dflt tr server mm log)
            = (if errors_of rs = [] then None else Some (MultiMessageError (errors_of rs)))
        \<and> (fst (MultiMessage_Send dflt tr server mm log) \<noteq> None \<longleftrightarrow> (\<exists>r\<in>set rs. r \<noteq> None))
        \<and> snd (snd (MultiMessage_Send dflt tr server mm log)) = log')"
proof -
  obtain rs log' where s: "sub_sends dflt tr server (Messages mm) log = (rs, log')"
    by (cases "sub_sends dflt tr server (Messages mm) log")
  have len: "length rs = length (Messages mm)"
    using length_sub_sends [of dflt tr server "Messages mm" log] s by simp
  have nil: "\<forall>i<length rs. Messages mm ! i = None \<longrightarrow> rs ! i = None"
    using sub_sends_nil_entry [of _ "Messages mm" dflt tr server log] s len by simp
  have res: "fst (MultiMessage_Send dflt tr server mm log)
            = (if errors_of rs = [] then None else Some (MultiMessageError (errors_of rs)))"
    and log: "snd (snd (MultiMessage_Send dflt tr server mm log)) = log'"
    using s by (auto simp add: MultiMessage_Send_def MultiMessage_loop_eq)
  have iff: "fst (MultiMessage_Send dflt tr server mm log) \<noteq> None \<longleftrightarrow> (\<exists>r\<in>set rs. r \<noteq> None)"
    using res errors_of_Nil_iff [of rs] by (simp split: if_splits)
  have empty: "Messages mm = [] \<longrightarrow> MultiMessage_Send dflt tr server mm log = (None, mm, log)"
    by (simp add: MultiMessage_Send_def)
  show ?thesis
    using s len nil res iff log empty by blast
qed

theorem MultiMessage_Send_batch_witness:
  "sub_sends TextMessage (writes_fail_on 2) chat_server (Messages batch) []
     = ([Some (ConnNotFoundError ''/chat'' ''u9''), None,
         Some (TransportError ''websocket: close sent''),
         Some (ConnNotFoundError ''/missing'' ''u1''), None],
        [\<lparr>w_conn = 2, w_messageType = 1, w_data = hi, w_err = Some ''websocket: close sent''\<rparr>,
         \<lparr>w_conn = 1, w_messageType = 1, w_data = hi, w_err = None\<rparr>])
   \<and> fst (MultiMessage_Send TextMessage (writes_fail_on 2) chat_server batch [])
       = Some (MultiMessageError
                 [ConnNotFoundError ''/chat'' ''u9'', TransportError ''websocket: close sent'',
                  ConnNotFoundError ''/missing'' ''u1''])
   \<and> snd (snd (MultiMessage_Send TextMessage (writes_fail_on 2) chat_server batch []))
       = [\<lparr>w_conn = 2, w_messageType = 1, w_data = hi, w_err = Some ''websocket: close sent''\<rparr>,
          \<lparr>w_conn = 1, w_messageType = 1, w_data = hi, w_err = None\<rparr>]
   \<and> Messages empty_batch = []
   \<and> MultiMessage_Send TextMessage (writes_fail_on 2) chat_server empty_batch []
       = (None, empty_batch, [])"
proof -
  have s: "sub_sends TextMessage (writes_fail_on 2) chat_server (Messages batch) []
     = ([Some (ConnNotFoundError ''/chat'' ''u9''), None,
         Some (TransportError ''websocket: close sent''),
         Some (ConnNotFoundError ''/missing'' ''u1''), None],
        [\<lparr>w_conn = 2, w_messageType = 1, w_data = hi, w_err = Some ''websocket: close sent''\<rparr>,
         \<lparr>w_conn = 1, w_messageType = 1, w_data = hi, w_err = None\<rparr>])"
    by (simp add: batch_def to_u9_def to_u2_def to_nobody_def to_u1_def Message_Send_def
        ensureValidMessageType_def Let_def GetConn_def GetEndpoint_def chat_server_def
        Endpoint_GetConn_def chat_def WriteMessage_def writes_fail_on_def TextMessage_def)
  have e: "Messages empty_batch = []"
    by (simp add: empty_batch_def)
  have a: "fst (MultiMessage_Send TextMessage (writes_fail_on 2) chat_server batch [])
       = Some (MultiMessageError
                 [ConnNotFoundError ''/chat'' ''u9'', TransportError ''websocket: close sent'',
                  ConnNotFoundError ''/missing'' ''u1''])"
    and b: "snd (snd (MultiMessage_Send TextMessage (writes_fail_on 2) chat_server batch []))
       = [\<lparr>w_conn = 2, w_messageType = 1, w_data = hi, w_err = Some ''websocket: close sent''\<rparr>,
          \<lparr>w_conn = 1, w_messageType = 1, w_data = hi, w_err = None\<rparr>]"
    using MultiMessage_Send_batch [of batch TextMessage "writes_fail_on 2" chat_server "[]"] s
    by simp_all
  have c: "MultiMessage_Send TextMessage (writes_fail_on 2) chat_server empty_batch []
       = (None, empty_batch, [])"
    using MultiMessage_Send_batch [of empty_batch TextMessage "writes_fail_on 2" chat_server "[]"] e
    by simp
  show ?thesis
    using s a b c e by simp
qed

section \<open>Kind normalisation in the four modes\<close>

subsection \<open>The message after a send\<close>

lemma BroadcastMessage_Send_msg:
  "fst (snd (BroadcastMessage_Send dflt tr server m log)) = ensureValidBroadcastMessage dflt m"
  by (simp add: BroadcastMessage_Send_def Let_def split: prod.splits option.splits)

lemma SendMessage_msg:
  "fst (snd (SendMessage dflt tr e msg log)) = ensureValidEndpointMessage dflt msg"
  by (simp add: SendMessage_def Let_def split: prod.splits)

lemma Message_Send_msg':
  "fst (snd (Message_Send dflt tr server m log)) = ensureValidMessageType dflt m"
  by (simp add: Message_Send_def Let_def split: prod.splits option.splits)

lemma MultiMessage_Send_msgs:
  "Messages (fst (snd (MultiMessage_Send dflt tr server mm log)))
     = map (map_option (ensureValidMessageType dflt)) (Messages mm)"
  by (simp add: MultiMessage_Send_def MultiMessage_loop_eq split: prod.splits)

text \<open>
  Claim C10. Normalisation changes the caller's message: a message whose kind is zero has
  the default kind after \<open>Message.Send\<close>, \<open>BroadcastMessage.Send\<close> or
  \<open>Endpoint.SendMessage\<close> has been called on it, whatever the call returned, and its other
  fields are as they were; the same holds for every non-nil entry of a batch after
  \<open>MultiMessage.Send\<close>.
\<close>

theorem kind_normalised_in_place:
  "(Message.MessageType m = 0 \<longrightarrow>
      fst (snd (Message_Send dflt tr server m log)) = m\<lparr>Message.MessageType := dflt\<rparr>)
   \<and> (BroadcastMessage.MessageType bm = 0 \<longrightarrow>
      fst (snd (BroadcastMessage_Send dflt tr server bm log))
        = bm\<lparr>BroadcastMessage.MessageType := dflt\<rparr>)
   \<and> (EndpointMessage.MessageType em = 0 \<longrightarrow>
      fst (snd (SendMessage dflt tr e em log)) = em\<lparr>EndpointMessage.MessageType := dflt\<rparr>)
   \<and> length (Messages (fst (snd (MultiMessage_Send dflt tr server mm log))))
       = length (Messages mm)
   \<and> (\<forall>i<length (Messages mm). \<forall>sm.
         Messages mm ! i = Some sm \<and> Message.MessageType sm = 0 \<longrightarrow>
         Messages (fst (snd (MultiMessage_Send dflt tr server mm log))) ! i
           = Some (sm\<lparr>Message.MessageType := dflt\<rparr>))"
  by (simp add: Message_Send_msg' BroadcastMessage_Send_msg SendMessage_msg
      MultiMessage_Send_msgs ensureValidMessageType_def ensureValidBroadcastMessage_def
      ensureValidEndpointMessage_def)

theorem kind_normalised_in_place_witness:
  "Message.MessageType to_u9 = 0
   \<and> fst (Message_Send TextMessage (writes_fail_on 2) chat_server to_u9 [])
       = Some (ConnNotFoundError ''/chat'' ''u9'')
   \<and> fst (snd (Message_Send TextMessage (writes_fail_on 2) chat_server to_u9 []))
       = to_u9\<lparr>Message.MessageType := TextMessage\<rparr>
   \<and> BroadcastMessage.MessageType to_missing = 0
   \<and> fst (snd (BroadcastMessage_Send TextMessage (writes_fail_on 2) chat_server to_missing []))
       = to_missing\<lparr>BroadcastMessage.MessageType := TextMessage\<rparr>
   \<and> EndpointMessage.MessageType some_ids = 0
   \<and> fst (snd (SendMessage TextMessage (writes_fail_on 2) chat some_ids []))
       = some_ids\<lparr>EndpointMessage.MessageType := TextMessage\<rparr>
   \<and> Messages batch ! 2 = Some to_u2
   \<and> Message.MessageType to_u2 = 0
   \<and> Messages (fst (snd (MultiMessage_Send TextMessage (writes_fail_on 2) chat_server batch []))) ! 2
       = Some (to_u2\<lparr>Message.MessageType := TextMessage\<rparr>)"
proof -
  note inst = kind_normalised_in_place
    [of to_u9 TextMessage "writes_fail_on 2" chat_server "[]" to_missing some_ids chat batch]
  have z: "Message.MessageType to_u9 = 0" "BroadcastMessage.MessageType to_missing = 0"
    "EndpointMessage.MessageType some_ids = 0" "Message.MessageType to_u2 = 0"
    "Messages batch ! 2 = Some to_u2" "2 < length (Messages batch)"
    by (simp_all add: to_u9_def to_missing_def some_ids_def to_u2_def batch_def)
  have f: "fst (Message_Send TextMessage (writes_fail_on 2) chat_server to_u9 [])
       = Some (ConnNotFoundError ''/chat'' ''u9'')"
    by (simp add: to_u9_def Message_Send_def ensureValidMessageType_def Let_def GetConn_def
        GetEndpoint_def chat_server_def Endpoint_GetConn_def chat_def)
  have a: "fst (snd (Message_Send TextMessage (writes_fail_on 2) chat_server to_u9 []))
       = to_u9\<lparr>Message.MessageType := TextMessage\<rparr>"
    and b: "fst (snd (BroadcastMessage_Send TextMessage (writes_fail_on 2) chat_server to_missing []))
       = to_missing\<lparr>BroadcastMessage.MessageType := TextMessage\<rparr>"
    and c: "fst (snd (SendMessage TextMessage (writes_fail_on 2) chat some_ids []))
       = some_ids\<lparr>EndpointMessage.MessageType := TextMessage\<rparr>"
    using inst z by blast+
  have "\<forall>i<length (Messages batch). \<forall>sm.
         Messages batch ! i = Some sm \<and> Message.MessageType sm = 0 \<longrightarrow>
         Messages (fst (snd (MultiMessage_Send TextMessage (writes_fail_on 2) chat_server batch []))) ! i
           = Some (sm\<lparr>Message.MessageType := TextMessage\<rparr>)"
    using inst by blast
  then have d: "Messages (fst (snd (MultiMessage_Send TextMessage (writes_fail_on 2) chat_server batch []))) ! 2
       = Some (to_u2\<lparr>Message.MessageType := TextMessage\<rparr>)"
    using z by blast
  show ?thesis
    using z f a b c d by simp
qed

subsection \<open>The writes of a send\<close>

lemma set_frames:
  "map frame new = map (\<lambda>conn. (conn, k, p)) cs \<Longrightarrow> \<forall>w\<in>set new. w_messageType w = k"
proof (induction new arbitrary: cs)
  case Nil
  then show ?case by simp
next
  case (Cons w new)
  then show ?case by (cases cs) (auto simp add: frame_def)
qed

lemma Message_Send_log:
  "snd (snd (Message_Send dflt tr server m log))
     = log @ writes tr
         (case GetConn server (Message.EndpointPath m) (Message.ConnId m) of
            None \<Rightarrow> [] | Some conn \<Rightarrow> [conn])
         (if Message.MessageType m = 0 then dflt else Message.MessageType m)
         (Message.Message m) log"
  by (simp add: Message_Send_def ensureValidMessageType_def Let_def WriteMessage_def
      split: option.splits)

lemma SendMessage_log:
  "snd (snd (SendMessage dflt tr e em log))
     = log @ writes tr
         (if ConnIds em = [] then map snd (ConnMap e)
          else List.map_filter (Endpoint_GetConn e) (ConnIds em))
         (if EndpointMessage.MessageType em = 0 then dflt else EndpointMessage.MessageType em)
         (EndpointMessage.Message em) log"
proof -
  let ?k = "if EndpointMessage.MessageType em = 0 then dflt else EndpointMessage.MessageType em"
  let ?p = "EndpointMessage.Message em"
  have norm: "EndpointMessage.MessageType (ensureValidEndpointMessage dflt em) = ?k"
    "EndpointMessage.Message (ensureValidEndpointMessage dflt em) = ?p"
    "ConnIds (ensureValidEndpointMessage dflt em) = ConnIds em"
    by (simp_all add: ensureValidEndpointMessage_def)
  show ?thesis
  proof (cases "ConnIds em = []")
    case True
    then show ?thesis
      by (simp add: SendMessage_def Let_def norm writeMessageForConns_eq)
  next
    case False
    from SendMessage_loop_eq [of tr e "ConnIds em" ?k ?p "[]" log]
    obtain E where "SendMessage_loop tr e (ConnIds em) ?k ?p [] log
        = (E, log @ writes tr (List.map_filter (Endpoint_GetConn e) (ConnIds em)) ?k ?p log)"
      by auto
    with False show ?thesis
      by (simp add: SendMessage_def Let_def norm)
  qed
qed

lemma BroadcastMessage_Send_log:
  "snd (snd (BroadcastMessage_Send dflt tr server bm log))
     = log @ writes tr
         (if BroadcastMessage.EndpointPath bm = [] then all_conns (EndpointMap server)
          else case GetEndpoint server (BroadcastMessage.EndpointPath bm) of
                 None \<Rightarrow> [] | Some endpoint \<Rightarrow> map snd (ConnMap endpoint))
         (if BroadcastMessage.MessageType bm = 0 then dflt else BroadcastMessage.MessageType bm)
         (BroadcastMessage.Message bm) log"
proof -
  let ?k = "if BroadcastMessage.MessageType bm = 0 then dflt else BroadcastMessage.MessageType bm"
  let ?p = "BroadcastMessage.Message bm"
  have norm: "BroadcastMessage.MessageType (ensureValidBroadcastMessage dflt bm) = ?k"
    "BroadcastMessage.Message (ensureValidBroadcastMessage dflt bm) = ?p"
    "BroadcastMessage.EndpointPath (ensureValidBroadcastMessage dflt bm)
       = BroadcastMessage.EndpointPath bm"
    by (simp_all add: ensureValidBroadcastMessage_def)
  consider (everywhere) "BroadcastMessage.EndpointPath bm = []"
    | (missing) "BroadcastMessage.EndpointPath bm \<noteq> []"
        "GetEndpoint server (BroadcastMessage.EndpointPath bm) = None"
    | (one) endpoint where "BroadcastMessage.EndpointPath bm \<noteq> []"
        "GetEndpoint server (BroadcastMessage.EndpointPath bm) = Some endpoint"
    by (cases "GetEndpoint server (BroadcastMessage.EndpointPath bm)") auto
  then show ?thesis
  proof cases
    case everywhere
    then show ?thesis
      by (simp add: BroadcastMessage_Send_def Let_def norm BroadcastMessage_loop_eq)
  next
    case missing
    then show ?thesis
      by (simp add: BroadcastMessage_Send_def Let_def norm)
  next
    case one
    then show ?thesis
      by (simp add: BroadcastMessage_Send_def Let_def norm writeMessageForConns_eq)
  qed
qed

lemma sub_sends_frames:
  "\<exists>new. snd (sub_sends dflt tr server ms log) = log @ new
     \<and> map frame new =
         concat (map (\<lambda>entry. case entry of
                        None \<Rightarrow> []
                      | Some sm \<Rightarrow>
                          (case GetConn server (Message.EndpointPath sm) (Message.ConnId sm) of
                             None \<Rightarrow> []
                           | Some conn \<Rightarrow>
                               [(conn,
                                 if Message.MessageType sm = 0 then dflt
                                 else Message.MessageType sm,
                                 Message.Message sm)])) ms)"
proof (induction ms arbitrary: log)
  case Nil
  then show ?case by simp
next
  case (Cons a ms)
  show ?case
  proof (cases a)
    case None
    then show ?thesis
      using Cons.IH [of log] by (simp add: case_prod_unfold)
  next
    case (Some m)
    let ?k = "if Message.MessageType m = 0 then dflt else Message.MessageType m"
    let ?cs = "case GetConn server (Message.EndpointPath m) (Message.ConnId m) of
            None \<Rightarrow> [] | Some conn \<Rightarrow> [conn]"
    let ?one = "writes tr ?cs ?k (Message.Message m) log"
    let ?f = "\<lambda>entry. case entry of
                        None \<Rightarrow> []
                      | Some sm \<Rightarrow>
                          (case GetConn server (Message.EndpointPath sm) (Message.ConnId sm) of
                             None \<Rightarrow> []
                           | Some conn \<Rightarrow>
                               [(conn,
                                 if Message.MessageType sm = 0 then dflt
                                 else Message.MessageType sm,
                                 Message.Message sm)])"
    from Cons.IH [of "log @ ?one"]
    obtain new where new: "snd (sub_sends dflt tr server ms (log @ ?one)) = (log @ ?one) @ new"
      and frames: "map frame new = concat (map ?f ms)"
      by blast
    have one: "map frame ?one = ?f (Some m)"
      by (simp add: frame_writes split: option.splits)
    have "snd (sub_sends dflt tr server (a # ms) log) = log @ (?one @ new)"
      using new Message_Send_log [of dflt tr server m log]
      by (simp add: Some case_prod_unfold)
    moreover have "map frame (?one @ new) = concat (map ?f (a # ms))"
      unfolding Some using one frames by (simp del: writes.simps)
    ultimately show ?thesis by blast
  qed
qed

lemma MultiMessage_Send_log:
  "snd (snd (MultiMessage_Send dflt tr server mm log))
     = snd (sub_sends dflt tr server (Messages mm) log)"
  by (cases "Messages mm = []") (simp_all add: MultiMessage_Send_def MultiMessage_loop_eq
      case_prod_unfold)

text \<open>
  Claim C6. In each of the four modes a message whose kind is zero is normalised to the
  default kind and then transmitted with it. After a point-to-point send, a per-endpoint
  multicast or a broadcast of such a message, the message holds the default kind, and the
  send has written exactly one frame to each of its targets (the addressed connection if
  it is found; every connection of the endpoint, or the connections of the listed ids that
  are found; every connection of the addressed endpoint, or of all endpoints), each frame
  carrying the default kind and the message's payload. A batch writes, for each of its
  non-nil messages in order, one frame to the connection the message addresses if it is
  found, carrying the message's payload and its kind, the default kind when that kind is
  zero.
\<close>

theorem unset_kind_sent_as_default:
  "(Message.MessageType m = 0 \<longrightarrow>
      fst (snd (Message_Send dflt tr server m log)) = m\<lparr>Message.MessageType := dflt\<rparr>
      \<and> (\<exists>new. snd (snd (Message_Send dflt tr server m log)) = log @ new
            \<and> map frame new =
                map (\<lambda>conn. (conn, dflt, Message.Message m))
                  (case GetConn server (Message.EndpointPath m) (Message.ConnId m) of
                     None \<Rightarrow> [] | Some conn \<Rightarrow> [conn])
            \<and> (\<forall>w\<in>set new. w_messageType w = dflt)))
   \<and> (EndpointMessage.MessageType em = 0 \<longrightarrow>
      fst (snd (SendMessage dflt tr e em log)) = em\<lparr>EndpointMessage.MessageType := dflt\<rparr>
      \<and> (\<exists>new. snd (snd (SendMessage dflt tr e em log)) = log @ new
            \<and> map frame new =
                map (\<lambda>conn. (conn, dflt, EndpointMessage.Message em))
                  (if ConnIds em = [] then map snd (ConnMap e)
                   else List.map_filter (Endpoint_GetConn e) (ConnIds em))
            \<and> (\<forall>w\<in>set new. w_messageType w = dflt)))
   \<and> (BroadcastMessage.MessageType bm = 0 \<longrightarrow>
      fst (snd (BroadcastMessage_Send dflt tr server bm log))
        = bm\<lparr>BroadcastMessage.MessageType := dflt\<rparr>
      \<and> (\<exists>new. snd (snd (BroadcastMessage_Send dflt tr server bm log)) = log @ new
            \<and> map frame new =
                map (\<lambda>conn. (conn, dflt, BroadcastMessage.Message bm))
                  (if BroadcastMessage.EndpointPath bm = [] then all_conns (EndpointMap server)
                   else case GetEndpoint server (BroadcastMessage.EndpointPath bm) of
                          None \<Rightarrow> [] | Some endpoint \<Rightarrow> map snd (ConnMap endpoint))
            \<and> (\<forall>w\<in>set new. w_messageType w = dflt)))
   \<and> (\<exists>new. snd (snd (MultiMessage_Send dflt tr server mm log)) = log @ new
         \<and> map frame new =
             concat (map (\<lambda>entry. case entry of
                        None \<Rightarrow> []
                      | Some sm \<Rightarrow>
                          (case GetConn server (Message.EndpointPath sm) (Message.ConnId sm) of
                             None \<Rightarrow> []
                           | Some conn \<Rightarrow>
                               [(conn,
                                 if Message.MessageType sm = 0 then dflt
                                 else Message.MessageType sm,
                                 Message.Message sm)])) (Messages mm)))"
proof -
  have p2p: "fst (snd (Message_Send dflt tr server m log)) = m\<lparr>Message.MessageType := dflt\<rparr>
      \<and> (\<exists>new. snd (snd (Message_Send dflt tr server m log)) = log @ new
            \<and> map frame new =
                map (\<lambda>conn. (conn, dflt, Message.Message m))
                  (case GetConn server (Message.EndpointPath m) (Message.ConnId m) of
                     None \<Rightarrow> [] | Some conn \<Rightarrow> [conn])
            \<and> (\<forall>w\<in>set new. w_messageType w = dflt))"
    if z: "Message.MessageType m = 0"
  proof -
    let ?cs = "case GetConn server (Message.EndpointPath m) (Message.ConnId m) of
                     None \<Rightarrow> [] | Some conn \<Rightarrow> [conn]"
    let ?new = "writes tr ?cs dflt (Message.Message m) log"
    have "snd (snd (Message_Send dflt tr server m log)) = log @ ?new"
      using Message_Send_log [of dflt tr server m log] z by simp
    moreover have f: "map frame ?new = map (\<lambda>conn. (conn, dflt, Message.Message m)) ?cs"
      by (rule frame_writes)
    moreover have "\<forall>w\<in>set ?new. w_messageType w = dflt"
      using set_frames [OF f] .
    moreover have "fst (snd (Message_Send dflt tr server m log)) = m\<lparr>Message.MessageType := dflt\<rparr>"
      using z by (simp add: Message_Send_msg' ensureValidMessageType_def)
    ultimately show ?thesis by blast
  qed
  have multicast: "fst (snd (SendMessage dflt tr e em log)) = em\<lparr>EndpointMessage.MessageType := dflt\<rparr>
      \<and> (\<exists>new. snd (snd (SendMessage dflt tr e em log)) = log @ new
            \<and> map frame new =
                map (\<lambda>conn. (conn, dflt, EndpointMessage.Message em))
                  (if ConnIds em = [] then map snd (ConnMap e)
                   else List.map_filter (Endpoint_GetConn e) (ConnIds em))
            \<and> (\<forall>w\<in>set new. w_messageType w = dflt))"
    if z: "EndpointMessage.MessageType em = 0"
  proof -
    let ?cs = "if ConnIds em = [] then map snd (ConnMap e)
                   else List.map_filter (Endpoint_GetConn e) (ConnIds em)"
    let ?new = "writes tr ?cs dflt (EndpointMessage.Message em) log"
    have "snd (snd (SendMessage dflt tr e em log)) = log @ ?new"
      using SendMessage_log [of dflt tr e em log] z by simp
    moreover have f: "map frame ?new = map (\<lambda>conn. (conn, dflt, EndpointMessage.Message em)) ?cs"
      by (rule frame_writes)
    moreover have "\<forall>w\<in>set ?new. w_messageType w = dflt"
      using set_frames [OF f] .
    moreover have "fst (snd (SendMessage dflt tr e em log)) = em\<lparr>EndpointMessage.MessageType := dflt\<rparr>"
      using z by (simp add: SendMessage_msg ensureValidEndpointMessage_def)
    ultimately show ?thesis by blast
  qed
  have broadcast: "fst (snd (BroadcastMessage_Send dflt tr server bm log))
        = bm\<lparr>BroadcastMessage.MessageType := dflt\<rparr>
      \<and> (\<exists>new. snd (snd (BroadcastMessage_Send dflt tr server bm log)) = log @ new
            \<and> map frame new =
                map (\<lambda>conn. (conn, dflt, BroadcastMessage.Message bm))
                  (if BroadcastMessage.EndpointPath bm = [] then all_conns (EndpointMap server)
                   else case GetEndpoint server (BroadcastMessage.EndpointPath bm) of
                          None \<Rightarrow> [] | Some endpoint \<Rightarrow> map snd (ConnMap endpoint))
            \<and> (\<forall>w\<in>set new. w_messageType w = dflt))"
    if z: "BroadcastMessage.MessageType bm = 0"
  proof -
    let ?cs = "if BroadcastMessage.EndpointPath bm = [] then all_conns (EndpointMap server)
                   else case GetEndpoint server (BroadcastMessage.EndpointPath bm) of
                          None \<Rightarrow> [] | Some endpoint \<Rightarrow> map snd (ConnMap endpoint)"
    let ?new = "writes tr ?cs dflt (BroadcastMessage.Message bm) log"
    have "snd (snd (BroadcastMessage_Send dflt tr server bm log)) = log @ ?new"
      using BroadcastMessage_Send_log [of dflt tr server bm log] z by simp
    moreover have f: "map frame ?new = map (\<lambda>conn. (conn, dflt, BroadcastMessage.Message bm)) ?cs"
      by (rule frame_writes)
    moreover have "\<forall>w\<in>set ?new. w_messageType w = dflt"
      using set_frames [OF f] .
    moreover have "fst (snd (BroadcastMessage_Send dflt tr server bm log))
        = bm\<lparr>BroadcastMessage.MessageType := dflt\<rparr>"
      using z by (simp add: BroadcastMessage_Send_msg ensureValidBroadcastMessage_def)
    ultimately show ?thesis by blast
  qed
  show ?thesis
    using p2p multicast broadcast sub_sends_frames [of dflt tr server "Messages mm" log]
    by (simp add: MultiMessage_Send_log)
qed

theorem unset_kind_sent_as_default_witness:
  "Message.MessageType to_u1 = 0
   \<and> EndpointMessage.MessageType some_ids = 0
   \<and> BroadcastMessage.MessageType to_chat = 0
   \<and> fst (snd (Message_Send TextMessage (writes_fail_on 2) chat_server to_u1 []))
       = to_u1\<lparr>Message.MessageType := TextMessage\<rparr>
   \<and> (\<exists>new. snd (snd (Message_Send TextMessage (writes_fail_on 2) chat_server to_u1 []))
          = [] @ new \<and> map frame new = [(1, TextMessage, hi)])
   \<and> fst (snd (SendMessage TextMessage (writes_fail_on 2) chat some_ids []))
       = some_ids\<lparr>EndpointMessage.MessageType := TextMessage\<rparr>
   \<and> (\<exists>new. snd (snd (SendMessage TextMessage (writes_fail_on 2) chat some_ids []))
          = [] @ new \<and> map frame new = [(2, TextMessage, hi), (1, TextMessage, hi)])
   \<and> fst (snd (BroadcastMessage_Send TextMessage (writes_fail_on 2) chat_server to_chat []))
       = to_chat\<lparr>BroadcastMessage.MessageType := TextMessage\<rparr>
   \<and> (\<exists>new. snd (snd (BroadcastMessage_Send TextMessage (writes_fail_on 2) chat_server to_chat []))
          = [] @ new \<and> map frame new = [(1, TextMessage, hi), (2, TextMessage, hi)])
   \<and> (\<exists>new. snd (snd (MultiMessage_Send TextMessage (writes_fail_on 2) chat_server batch []))
          = [] @ new \<and> map frame new = [(2, TextMessage, hi), (1, TextMessage, hi)])"
proof -
  note inst = unset_kind_sent_as_default
    [where m = to_u1 and dflt = TextMessage and tr = "writes_fail_on 2" and server = chat_server
       and log = "[]" and em = some_ids and e = chat and bm = to_chat and mm = batch]
  have z: "Message.MessageType to_u1 = 0" "EndpointMessage.MessageType some_ids = 0"
    "BroadcastMessage.MessageType to_chat = 0"
    by (simp_all add: to_u1_def some_ids_def to_chat_def)
  have t1: "(case GetConn chat_server (Message.EndpointPath to_u1) (Message.ConnId to_u1) of
               None \<Rightarrow> [] | Some conn \<Rightarrow> [conn]) = [1]"
    by (simp add: to_u1_def GetConn_def GetEndpoint_def chat_server_def Endpoint_GetConn_def
        chat_def)
  have t2: "(if ConnIds some_ids = [] then map snd (ConnMap chat)
             else List.map_filter (Endpoint_GetConn chat) (ConnIds some_ids)) = [2, 1]"
    by (simp add: some_ids_def Endpoint_GetConn_def chat_def)
  have t3: "(if BroadcastMessage.EndpointPath to_chat = [] then all_conns (EndpointMap chat_server)
             else case GetEndpoint chat_server (BroadcastMessage.EndpointPath to_chat) of
                    None \<Rightarrow> [] | Some endpoint \<Rightarrow> map snd (ConnMap endpoint)) = [1, 2]"
    by (simp add: to_chat_def GetEndpoint_def chat_server_def chat_def)
  have t4: "concat (map (\<lambda>entry. case entry of
                        None \<Rightarrow> []
                      | Some sm \<Rightarrow>
                          (case GetConn chat_server (Message.EndpointPath sm) (Message.ConnId sm) of
                             None \<Rightarrow> []
                           | Some conn \<Rightarrow>
                               [(conn,
                                 if Message.MessageType sm = 0 then TextMessage
                                 else Message.MessageType sm,
                                 Message.Message sm)])) (Messages batch))
            = [(2, TextMessage, hi), (1, TextMessage, hi)]"
    by (simp add: batch_def to_u9_def to_u2_def to_nobody_def to_u1_def GetConn_def
        GetEndpoint_def chat_server_def Endpoint_GetConn_def chat_def)
  have a: "fst (snd (Message_Send TextMessage (writes_fail_on 2) chat_server to_u1 []))
       = to_u1\<lparr>Message.MessageType := TextMessage\<rparr>"
    and a': "\<exists>new. snd (snd (Message_Send TextMessage (writes_fail_on 2) chat_server to_u1 []))
          = [] @ new \<and> map frame new = [(1, TextMessage, hi)]"
    using inst z t1 by (auto simp add: to_u1_def)
  have b: "fst (snd (SendMessage TextMessage (writes_fail_on 2) chat some_ids []))
       = some_ids\<lparr>EndpointMessage.MessageType := TextMessage\<rparr>"
    and b': "\<exists>new. snd (snd (SendMessage TextMessage (writes_fail_on 2) chat some_ids []))
          = [] @ new \<and> map frame new = [(2, TextMessage, hi), (1, TextMessage, hi)]"
    using inst z t2 by (auto simp add: some_ids_def)
  have c: "fst (snd (BroadcastMessage_Send TextMessage (writes_fail_on 2) chat_server to_chat []))
       = to_chat\<lparr>BroadcastMessage.MessageType := TextMessage\<rparr>"
    and c': "\<exists>new. snd (snd (BroadcastMessage_Send TextMessage (writes_fail_on 2) chat_server to_chat []))
          = [] @ new \<and> map frame new = [(1, TextMessage, hi), (2, TextMessage, hi)]"
    using inst z t3 by (auto simp add: to_chat_def)
  have d: "\<exists>new. snd (snd (MultiMessage_Send TextMessage (writes_fail_on 2) chat_server batch []))
          = [] @ new \<and> map frame new = [(2, TextMessage, hi), (1, TextMessage, hi)]"
    using inst t4 by auto
  show ?thesis
    using z a a' b b' c c' d by blast
qed

section \<open>What an aggregate error tells\<close>










end
